theory Spec2Isabelle
  imports Main
begin

section \<open>Data model of relay.go\<close>

text \<open>
  The value of a Go \<^verbatim>\<open>error\<close> is its message; \<^verbatim>\<open>nil\<close> is \<open>None\<close> of
  \<open>string option\<close>.
\<close>

datatype Status = PublishStatusSent | PublishStatusFailed | PublishStatusSucceeded

definition Status_value :: "Status \<Rightarrow> int" where
  "Status_value s =
     (case s of PublishStatusSent \<Rightarrow> 0 | PublishStatusFailed \<Rightarrow> - 1 | PublishStatusSucceeded \<Rightarrow> 1)"

definition Status_String :: "Status \<Rightarrow> string" where
  "Status_String s =
     (case s of PublishStatusSent \<Rightarrow> ''sent'' | PublishStatusFailed \<Rightarrow> ''failed''
      | PublishStatusSucceeded \<Rightarrow> ''success'')"

text \<open>
  \<^verbatim>\<open>Event\<close>, \<^verbatim>\<open>Filter\<close> and \<^verbatim>\<open>Subscription\<close> are declared outside relay.go. The records
  hold what relay.go reads and writes of them: the identity of an event (the rest of it is
  the opaque \<open>Payload\<close>), the \<^verbatim>\<open>IDs\<close> field of a filter, and the fields of a subscription
  that \<^verbatim>\<open>PrepareSubscription\<close> and the dispatcher touch.
\<close>

record Event =
  ID :: string
  Payload :: string

record Filter =
  IDs :: "string list"

type_synonym Filters = "Filter list"

text \<open>
  A \<^verbatim>\<open>context.Context\<close> as far as relay.go looks at it: the deadline, if one is set, and
  whether its \<^verbatim>\<open>Done\<close> channel is closed. Times and durations are nanoseconds.
\<close>

record Context =
  Deadline :: "int option"
  Done :: bool

definition Second :: int where
  "Second = 1000000000"

definition WithTimeout :: "Context \<Rightarrow> int \<Rightarrow> int \<Rightarrow> Context" where
  "WithTimeout ctx now d =
     ctx\<lparr>Deadline := Some (case Deadline ctx of None \<Rightarrow> now + d | Some t \<Rightarrow> min t (now + d))\<rparr>"

definition WithCancel :: "Context \<Rightarrow> Context" where
  "WithCancel ctx = ctx"

definition Background :: Context where
  "Background = \<lparr>Deadline = None, Done = False\<rparr>"

text \<open>
  The idiom that opens \<^verbatim>\<open>Connect\<close>, \<^verbatim>\<open>Publish\<close>, \<^verbatim>\<open>Auth\<close> and \<^verbatim>\<open>QuerySync\<close>:
  \<^verbatim>\<open>if _, ok := ctx.Deadline(); !ok { ctx, cancel = context.WithTimeout(ctx, d) }\<close>.
\<close>

definition force_timeout :: "Context \<Rightarrow> int \<Rightarrow> int \<Rightarrow> Context" where
  "force_timeout ctx now d = (if Deadline ctx = None then WithTimeout ctx now d else ctx)"

record Subscription =
  counter :: int
  Context :: Context
  Filters :: Filters
  stopped :: bool
  emitEose :: bool

text \<open>
  \<open>emitEose\<close> is the \<^verbatim>\<open>sync.Once\<close>: \<open>True\<close> once its function has run. The channels
  \<^verbatim>\<open>Events\<close> and \<^verbatim>\<open>EndOfStoredEvents\<close> appear as the send operations on them (below).
\<close>

record RecConn =
  KeepAliveTimeout :: int
  RecIntvlMin :: int

text \<open>
  The local variables of one \<^verbatim>\<open>Publish\<close> or \<^verbatim>\<open>Auth\<close> call that its confirmation
  callback shares with it: \<^verbatim>\<open>status\<close>, \<^verbatim>\<open>err\<close>, and whether the call's cancellable
  context has been cancelled.
\<close>

record call =
  status :: Status
  err :: "string option"
  cancelled :: bool

type_synonym okCallback = "bool \<Rightarrow> string \<Rightarrow> call \<Rightarrow> call"

record Relay =
  URL :: string
  RequestHeader :: "(string \<times> string list) list"
  Connection :: "RecConn option"
  subscriptions :: "string \<rightharpoonup> Subscription"
  ConnectionContext :: Context
  okCallbacks :: "string \<rightharpoonup> okCallback"
  AssumeValid :: bool

subsection \<open>Operations on the outside world\<close>

datatype frame =
    EVENT_out Event
  | AUTH_out Event
  | REQ_out string Filters
  | CLOSE_out string

datatype diagnostic =
    NoSubscription string
  | FilterMismatch Filter Event
  | BadSignature string

text \<open>
  What a function does besides changing the relay, in program order: writes to the
  transport, sends on channels (\<open>Go\<close>: from a goroutine started for that one send),
  \<^verbatim>\<open>log.Printf\<close>, operations on a subscription's mutex, calls of a registered callback,
  and stores into and deletions from \<^verbatim>\<open>okCallbacks\<close>.
\<close>

datatype op =
    Dial string "(string \<times> string list) list"
  | WriteMessage int
  | WriteJSON frame
  | GoSendError string
  | GoSendNotice string
  | GoSendChallenge string
  | Printf diagnostic
  | MutexLock string
  | MutexUnlock string
  | SendEvent string Event
  | SendEose string
  | CallOk string bool string
  | StoreOk string
  | DeleteOk string

definition TextMessage :: int where "TextMessage = 1"
definition PingMessage :: int where "PingMessage = 9"
definition PongMessage :: int where "PongMessage = 10"

text \<open>
  The collaborators relay.go calls and does not define: \<^verbatim>\<open>json.Unmarshal\<close> at the four
  target types it is used with (into a string, bool or event variable the error is
  ignored, so the function gives the variable's value after the call), the filter match
  and the signature check.
\<close>

record env =
  unmarshal_array :: "string \<Rightarrow> string list option"
  unmarshal_string :: "string \<Rightarrow> string"
  unmarshal_bool :: "string \<Rightarrow> bool"
  unmarshal_event :: "string \<Rightarrow> Event"
  Match :: "Filters \<Rightarrow> Event \<Rightarrow> bool"
  CheckSignature :: "Event \<Rightarrow> bool \<times> string option"

section \<open>The dispatcher: the goroutine handling received messages\<close>

datatype read = ReadOK int string | ReadErr string

datatype ctl = Continue | Break | Panic

text \<open>The function literal of the \<^verbatim>\<open>EVENT\<close> case, called on the subscription found.\<close>

definition deliver_event :: "env \<Rightarrow> Relay \<Rightarrow> string \<Rightarrow> Subscription \<Rightarrow> string \<Rightarrow> ctl \<times> op list" where
  "deliver_event env r subId subscription raw =
     (let event = unmarshal_event env raw in
      if \<not> Match env (Filters subscription) event then
        (case Filters subscription of
           [] \<Rightarrow> (Panic, [])
         | f # _ \<Rightarrow> (Continue, [Printf (FilterMismatch f event)]))
      else
        (Continue,
         [MutexLock subId] @
         (if stopped subscription then []
          else if \<not> AssumeValid r \<and> \<not> fst (CheckSignature env event) then
            [Printf (BadSignature (case snd (CheckSignature env event) of None \<Rightarrow> [] | Some e \<Rightarrow> e))]
          else [SendEvent subId event]) @
         [MutexUnlock subId]))"

definition on_EVENT :: "env \<Rightarrow> Relay \<Rightarrow> string list \<Rightarrow> ctl \<times> Relay \<times> op list" where
  "on_EVENT env r jsonMessage =
     (if length jsonMessage < 3 then (Continue, r, [])
      else
        let subId = unmarshal_string env (jsonMessage ! 1) in
        case subscriptions r subId of
          None \<Rightarrow> (Continue, r, [Printf (NoSubscription subId)])
        | Some subscription \<Rightarrow>
            (case deliver_event env r subId subscription (jsonMessage ! 2) of
               (c, ops) \<Rightarrow> (c, r, ops)))"

definition on_EOSE :: "env \<Rightarrow> Relay \<Rightarrow> string list \<Rightarrow> ctl \<times> Relay \<times> op list" where
  "on_EOSE env r jsonMessage =
     (if length jsonMessage < 2 then (Continue, r, [])
      else
        let subId = unmarshal_string env (jsonMessage ! 1) in
        case subscriptions r subId of
          None \<Rightarrow> (Continue, r, [])
        | Some subscription \<Rightarrow>
            if emitEose subscription then (Continue, r, [])
            else
              (Continue,
               r\<lparr>subscriptions := (subscriptions r)(subId \<mapsto> subscription\<lparr>emitEose := True\<rparr>)\<rparr>,
               [SendEose subId]))"

definition on_OK :: "env \<Rightarrow> Relay \<Rightarrow> string list \<Rightarrow> ctl \<times> Relay \<times> op list" where
  "on_OK env r jsonMessage =
     (if length jsonMessage < 3 then (Continue, r, [])
      else
        let eventId = unmarshal_string env (jsonMessage ! 1);
            ok = unmarshal_bool env (jsonMessage ! 2);
            msg = (if length jsonMessage > 3 then unmarshal_string env (jsonMessage ! 3) else [])
        in case okCallbacks r eventId of
             None \<Rightarrow> (Continue, r, [])
           | Some okCallback \<Rightarrow> (Continue, r, [CallOk eventId ok msg]))"

text \<open>One pass through the body of the \<^verbatim>\<open>for\<close> loop, on what \<^verbatim>\<open>ws.ReadMessage\<close> returned.\<close>

definition dispatch :: "env \<Rightarrow> Relay \<Rightarrow> read \<Rightarrow> ctl \<times> Relay \<times> op list" where
  "dispatch env r rd =
     (case rd of
        ReadErr e \<Rightarrow> (Continue, r, [GoSendError e])
      | ReadOK typ message \<Rightarrow>
          if typ = PingMessage then (Continue, r, [WriteMessage PongMessage])
          else if typ \<noteq> TextMessage \<or> (case message of [] \<Rightarrow> True | b # _ \<Rightarrow> b \<noteq> CHR ''['')
          then (Continue, r, [])
          else
            (case unmarshal_array env message of
               None \<Rightarrow> (Continue, r, [])
             | Some jsonMessage \<Rightarrow>
                 if length jsonMessage < 2 then (Continue, r, [])
                 else
                   let command = unmarshal_string env (jsonMessage ! 0) in
                   if command = ''NOTICE'' then
                     (Continue, r, [GoSendNotice (unmarshal_string env (jsonMessage ! 1))])
                   else if command = ''AUTH'' then
                     (Continue, r, [GoSendChallenge (unmarshal_string env (jsonMessage ! 1))])
                   else if command = ''EVENT'' then on_EVENT env r jsonMessage
                   else if command = ''EOSE'' then on_EOSE env r jsonMessage
                   else if command = ''OK'' then on_OK env r jsonMessage
                   else (Continue, r, [])))"

text \<open>
  The goroutine: the loop over the results of \<^verbatim>\<open>ws.ReadMessage\<close>, and the
  \<^verbatim>\<open>cancel()\<close> of the connection context that follows the loop. With the reads used up
  the goroutine is \<open>Reading\<close>, blocked in the next \<^verbatim>\<open>ReadMessage\<close>.
\<close>

datatype goroutine = Reading | Exited | Crashed

fun Dispatcher :: "env \<Rightarrow> Relay \<Rightarrow> read list \<Rightarrow> goroutine \<times> Relay \<times> op list" where
  "Dispatcher env r [] = (Reading, r, [])"
| "Dispatcher env r (rd # rds) =
     (case dispatch env r rd of
        (Continue, r', ops) \<Rightarrow>
          (case Dispatcher env r' rds of (g, r'', ops') \<Rightarrow> (g, r'', ops @ ops'))
      | (Break, r', ops) \<Rightarrow>
          (Exited, r'\<lparr>ConnectionContext := (ConnectionContext r')\<lparr>Done := True\<rparr>\<rparr>, ops)
      | (Panic, r', ops) \<Rightarrow> (Crashed, r', ops))"

section \<open>Connect\<close>

text \<open>
  \<^verbatim>\<open>Connect\<close> up to its \<^verbatim>\<open>return nil\<close>; \<open>now\<close> is the time of the call. The context
  with the forced timeout is bound and not used again, as in the source, and
  \<^verbatim>\<open>ws.Dial\<close> returns nothing. The two goroutines it starts are the heartbeat and the
  \<open>Dispatcher\<close> above.
\<close>

definition Connect :: "Relay \<Rightarrow> Context \<Rightarrow> int \<Rightarrow> Relay \<times> string option \<times> op list" where
  "Connect r ctx now =
     (let connectionContext = WithCancel Background;
          r1 = r\<lparr>ConnectionContext := connectionContext\<rparr>
      in
        if URL r1 = [] then
          (r1\<lparr>ConnectionContext := connectionContext\<lparr>Done := True\<rparr>\<rparr>,
           Some (''invalid relay URL '' @ [CHR 0x27] @ URL r1 @ [CHR 0x27]),
           [])
        else
          let ctx = force_timeout ctx now (7 * Second);
              ws = \<lparr>KeepAliveTimeout = 10 * Second, RecIntvlMin = 5 * Second\<rparr>
          in (r1\<lparr>Connection := Some ws\<rparr>, None, [Dial (URL r1) (RequestHeader r1)]))"

section \<open>Subscriptions\<close>

fun digits :: "nat \<Rightarrow> string" where
  "digits n =
     (if n < 10 then [''0123456789'' ! n]
      else digits (n div 10) @ [''0123456789'' ! (n mod 10)])"

declare digits.simps [simp del]

definition Itoa :: "int \<Rightarrow> string" where
  "Itoa i = (if i < 0 then CHR ''-'' # digits (nat (- i)) else digits (nat i))"

text \<open>
  Modelled from the spec: the identity of a subscription, declared outside relay.go
  (``monotonically increasing counter scoped to process lifetime, rendered as a string'').
\<close>

definition GetID :: "Subscription \<Rightarrow> string" where
  "GetID sub = Itoa (counter sub)"

text \<open>
  \<^verbatim>\<open>PrepareSubscription\<close> reads and increments the package variable
  \<^verbatim>\<open>subscriptionIdCounter\<close>, which is passed in and returned.
\<close>

definition PrepareSubscription :: "Relay \<Rightarrow> int \<Rightarrow> Context \<Rightarrow> Subscription \<times> int" where
  "PrepareSubscription r subscriptionIdCounter ctx =
     (let current = subscriptionIdCounter in
      (\<lparr>counter = current, Context = WithCancel ctx, Filters = [],
        stopped = False, emitEose = False\<rparr>,
       subscriptionIdCounter + 1))"

text \<open>
  Modelled from the spec: \<^verbatim>\<open>Fire\<close>, declared outside relay.go (``registers the
  Subscription in the Relay's table under its identity, sends a REQ frame'').
\<close>

definition Fire :: "Relay \<Rightarrow> Subscription \<Rightarrow> Relay \<times> op list" where
  "Fire r sub =
     (r\<lparr>subscriptions := (subscriptions r)(GetID sub \<mapsto> sub)\<rparr>,
      [WriteJSON (REQ_out (GetID sub) (Filters sub))])"


definition Subscribe ::
  "Relay \<Rightarrow> int \<Rightarrow> Context \<Rightarrow> Filters \<Rightarrow> string + (Relay \<times> int \<times> Subscription \<times> op list)" where
  "Subscribe r subscriptionIdCounter ctx filters =
     (if Connection r = None then
        Inl ''must call .Connect() first before calling .Subscribe()''
      else
        case PrepareSubscription r subscriptionIdCounter ctx of
          (sub, n) \<Rightarrow>
            (let sub = sub\<lparr>Filters := filters\<rparr> in
             case Fire r sub of (r', sent) \<Rightarrow> Inr (r', n, sub, sent)))"

section \<open>Blocking calls\<close>

text \<open>
  A call that waits is given what happens while it waits, in the order in which it
  happens: a value received from the subscription's \<^verbatim>\<open>Events\<close> channel (\<open>None\<close>: the
  nil of a closed channel), a value received from \<^verbatim>\<open>EndOfStoredEvents\<close>, the call's
  context found done (deadline or cancellation by the caller), the relay's
  \<^verbatim>\<open>ConnectionContext\<close> found done, and the dispatcher calling the confirmation callback
  registered by the call. A \<^verbatim>\<open>select\<close> or receive that the call does not have lets the
  occurrence pass. With the list used up, the call returns if one of its contexts is
  done, and is \<open>Blocked\<close> otherwise.

  The call itself runs from the registration of its callback to its wait without the
  dispatcher running in between.
\<close>

datatype occurrence =
    ChanEvent "Event option"
  | ChanEose
  | CtxDone
  | ConnDone
  | OkCalled bool string

datatype 'a outcome = Blocked | Panicked string | Returned 'a

record 'a result =
  relay_after :: Relay
  counter_after :: int
  performed :: "op list"
  wait_ctx :: Context
  outcome :: "'a outcome"

subsection \<open>QuerySync\<close>



subsection \<open>Publish\<close>

definition Publish_okCallback :: okCallback where
  "Publish_okCallback ok msg c =
     (if ok then c\<lparr>status := PublishStatusSucceeded\<rparr>
      else c\<lparr>status := PublishStatusFailed, err := Some (''msg: '' @ msg)\<rparr>)
     \<lparr>cancelled := True\<rparr>"

fun Publish_wait ::
  "bool \<Rightarrow> Event \<Rightarrow> call \<Rightarrow> occurrence list \<Rightarrow> (Status \<times> string option) option" where
  "Publish_wait conn_done event c [] =
     (if cancelled c \<or> conn_done then Some (status c, err c) else None)"
| "Publish_wait conn_done event c (ChanEvent None # rest) = Some (status c, err c)"
| "Publish_wait conn_done event c (ChanEvent (Some receivedEvent) # rest) =
     (if ID receivedEvent = ID event then Some (PublishStatusSucceeded, err c)
      else Publish_wait conn_done event c rest)"
| "Publish_wait conn_done event c (CtxDone # rest) = Some (status c, err c)"
| "Publish_wait conn_done event c (ConnDone # rest) = Some (status c, err c)"
| "Publish_wait conn_done event c (OkCalled ok msg # rest) =
     Publish_wait conn_done event (Publish_okCallback ok msg c) rest"
| "Publish_wait conn_done event c (ChanEose # rest) = Publish_wait conn_done event c rest"

text \<open>
  \<open>write\<close> is what \<^verbatim>\<open>r.Connection.WriteJSON\<close> returns. On a nil \<^verbatim>\<open>Connection\<close> that
  call dereferences nil and panics; the deferred deletion runs all the same. The
  subscription that \<^verbatim>\<open>Publish\<close> opens stays registered when it returns: it is left to
  its context, which the deferred \<^verbatim>\<open>cancel\<close> ends.
\<close>

definition Publish ::
  "Relay \<Rightarrow> int \<Rightarrow> Context \<Rightarrow> int \<Rightarrow> Event \<Rightarrow> string option \<Rightarrow> occurrence list
   \<Rightarrow> (Status \<times> string option) result" where
  "Publish r subscriptionIdCounter ctx now event write trace =
     (let ctx = WithCancel (force_timeout ctx now (3 * Second));
          c = \<lparr>status = PublishStatusSent, err = None, cancelled = Done ctx\<rparr>;
          r1 = r\<lparr>okCallbacks := (okCallbacks r)(ID event \<mapsto> Publish_okCallback)\<rparr>;
          delete = (\<lambda>r'. r'\<lparr>okCallbacks := (okCallbacks r')(ID event := None)\<rparr>)
      in
        case Connection r1 of
          None \<Rightarrow>
            \<lparr>relay_after = delete r1, counter_after = subscriptionIdCounter,
             performed = [StoreOk (ID event), DeleteOk (ID event)],
             wait_ctx = ctx, outcome = Panicked ''nil pointer dereference''\<rparr>
        | Some conn \<Rightarrow>
            (case write of
               Some e \<Rightarrow>
                 \<lparr>relay_after = delete r1, counter_after = subscriptionIdCounter,
                  performed = [StoreOk (ID event), WriteJSON (EVENT_out event), DeleteOk (ID event)],
                  wait_ctx = ctx, outcome = Returned (status c, Some e)\<rparr>
             | None \<Rightarrow>
                 (case Subscribe r1 subscriptionIdCounter ctx [\<lparr>IDs = [ID event]\<rparr>] of
                    Inl p \<Rightarrow>
                      \<lparr>relay_after = delete r1, counter_after = subscriptionIdCounter,
                       performed = [StoreOk (ID event), WriteJSON (EVENT_out event), DeleteOk (ID event)],
                       wait_ctx = ctx, outcome = Panicked p\<rparr>
                  | Inr (r2, n, sub, sent) \<Rightarrow>
                      (case Publish_wait (Done (ConnectionContext r2)) event c trace of
                         None \<Rightarrow>
                           \<lparr>relay_after = r2, counter_after = n,
                            performed = [StoreOk (ID event), WriteJSON (EVENT_out event)] @ sent,
                            wait_ctx = ctx, outcome = Blocked\<rparr>
                       | Some res \<Rightarrow>
                           \<lparr>relay_after = delete r2, counter_after = n,
                            performed = [StoreOk (ID event), WriteJSON (EVENT_out event)] @ sent
                                        @ [DeleteOk (ID event)],
                            wait_ctx = ctx, outcome = Returned res\<rparr>))))"

subsection \<open>Auth\<close>




section \<open>Predicates and fixtures for the statements\<close>

text \<open>A frame that the dispatcher is to drop: what makes it malformed, read off the frame.\<close>

definition malformed :: "env \<Rightarrow> int \<Rightarrow> string \<Rightarrow> bool" where
  "malformed env typ message =
     (typ \<noteq> TextMessage \<or> message = [] \<or> hd message \<noteq> CHR ''[''
      \<or> (case unmarshal_array env message of
            None \<Rightarrow> True
          | Some js \<Rightarrow>
              length js < 2
              \<or> (let command = unmarshal_string env (js ! 0) in
                   command \<notin> {''NOTICE'', ''AUTH'', ''EVENT'', ''EOSE'', ''OK''}
                   \<or> ((command = ''EVENT'' \<or> command = ''OK'') \<and> length js < 3)
                   \<or> (command = ''EOSE'' \<and> length js < 2))))"

text \<open>
  A text frame whose array has the tag \<open>tag\<close> first and at least \<open>n\<close> elements,
  \<open>js\<close> being the elements.
\<close>

definition tagged_frame :: "env \<Rightarrow> read \<Rightarrow> string \<Rightarrow> nat \<Rightarrow> string list \<Rightarrow> bool" where
  "tagged_frame env rd tag n js =
     (case rd of
        ReadErr e \<Rightarrow> False
      | ReadOK typ message \<Rightarrow>
          typ = TextMessage \<and> message \<noteq> [] \<and> hd message = CHR ''[''
          \<and> unmarshal_array env message = Some js \<and> 2 \<le> length js \<and> n \<le> length js
          \<and> unmarshal_string env (js ! 0) = tag)"

text \<open>How many more end-of-stored-events signals a subscription identity can get.\<close>

definition eose_pending :: "Relay \<Rightarrow> string \<Rightarrow> nat" where
  "eose_pending r subId =
     (case subscriptions r subId of
        None \<Rightarrow> 0
      | Some sub \<Rightarrow> if emitEose sub then 0 else 1)"

text \<open>
  A small instance of the collaborators, for concrete runs: a table of frames and of
  events stands for the JSON decoder, a filter matches on \<^verbatim>\<open>IDs\<close>, and the signature
  of an event with the payload \<open>forged\<close> is bad.
\<close>

definition quoted :: "string \<Rightarrow> string" where
  "quoted s = CHR 0x22 # s @ [CHR 0x22]"

definition raw_note :: string where
  "raw_note = ''{'' @ quoted ''id'' @ '':'' @ quoted ''e1'' @ ''}''"

definition text_EVENT :: string where
  "text_EVENT = ''['' @ quoted ''EVENT'' @ '','' @ quoted ''0'' @ '','' @ raw_note @ '']''"

definition text_EOSE :: string where
  "text_EOSE = ''['' @ quoted ''EOSE'' @ '','' @ quoted ''0'' @ '']''"

definition fixture_env :: env where
  "fixture_env =
     \<lparr>unmarshal_array =
        map_of [(text_EVENT, [quoted ''EVENT'', quoted ''0'', raw_note]),
                (text_EOSE, [quoted ''EOSE'', quoted ''0''])],
      unmarshal_string =
        (\<lambda>s. case s of
               [] \<Rightarrow> []
             | c # t \<Rightarrow> if c = CHR 0x22 \<and> t \<noteq> [] \<and> last t = CHR 0x22 then butlast t else []),
      unmarshal_bool = (\<lambda>s. s = ''true''),
      unmarshal_event =
        (\<lambda>s. if s = raw_note then \<lparr>ID = ''e1'', Payload = []\<rparr> else \<lparr>ID = [], Payload = []\<rparr>),
      Match = (\<lambda>fs e. list_ex (\<lambda>f. IDs f = [] \<or> ID e \<in> set (IDs f)) fs),
      CheckSignature =
        (\<lambda>e. if Payload e = ''forged'' then (False, Some ''signature is invalid'')
             else (True, None))\<rparr>"

definition fixture_sub :: Subscription where
  "fixture_sub =
     \<lparr>counter = 0, Context = Background, Filters = [\<lparr>IDs = [''e1'']\<rparr>],
      stopped = False, emitEose = False\<rparr>"

definition fixture_relay :: Relay where
  "fixture_relay =
     \<lparr>URL = ''wss://relay.example'', RequestHeader = [],
      Connection = Some \<lparr>KeepAliveTimeout = 10 * Second, RecIntvlMin = 5 * Second\<rparr>,
      subscriptions = [''0'' \<mapsto> fixture_sub],
      ConnectionContext = Background, okCallbacks = Map.empty, AssumeValid = False\<rparr>"

definition fixture_event :: Event where
  "fixture_event = \<lparr>ID = ''e1'', Payload = []\<rparr>"


section \<open>The dispatcher never leaves its loop\<close>

lemma dispatch_not_Break: "fst (dispatch env r rd) \<noteq> Break"
  by (auto simp: dispatch_def on_EVENT_def on_EOSE_def on_OK_def deliver_event_def Let_def
      split: read.splits option.splits list.splits if_splits prod.splits)

lemma dispatch_ConnectionContext:
  "ConnectionContext (fst (snd (dispatch env r rd))) = ConnectionContext r"
  by (auto simp: dispatch_def on_EVENT_def on_EOSE_def on_OK_def deliver_event_def Let_def
      split: read.splits option.splits list.splits if_splits prod.splits)

lemma Dispatcher_stays:
  "fst (Dispatcher env r rds) \<noteq> Exited \<and>
   ConnectionContext (fst (snd (Dispatcher env r rds))) = ConnectionContext r"
proof (induction rds arbitrary: r)
  case Nil
  show ?case by simp
next
  case (Cons rd rds)
  obtain c r' ops where d: "dispatch env r rd = (c, r', ops)"
    by (cases "dispatch env r rd") auto
  have nb: "c \<noteq> Break" using dispatch_not_Break [of env r rd] d by simp
  have cc: "ConnectionContext r' = ConnectionContext r"
    using dispatch_ConnectionContext [of env r rd] d by simp
  show ?case
  proof (cases c)
    case Continue
    obtain g r'' ops' where D: "Dispatcher env r' rds = (g, r'', ops')"
      by (cases "Dispatcher env r' rds") auto
    from Cons.IH [of r'] D cc Continue d show ?thesis by simp
  next
    case Break
    with nb show ?thesis by simp
  next
    case Panic
    with d cc show ?thesis by simp
  qed
qed

lemma Dispatcher_read_errors:
  "Dispatcher env r (map ReadErr errs) = (Reading, r, map GoSendError errs)"
  by (induction errs) (simp_all add: dispatch_def)

text \<open>
  C1. Every read error, whatever it says, is handed to the \<^verbatim>\<open>Errors\<close> channel and the
  loop goes on to the next read. No result of \<^verbatim>\<open>ReadMessage\<close> makes the dispatcher
  leave its loop: after any sequence of reads it has not exited, and the
  \<^verbatim>\<open>ConnectionContext\<close> is as it was, so the \<^verbatim>\<open>cancel()\<close> behind the loop is never
  reached, also when the transport reports that it is closed for good.
\<close>

theorem Dispatcher_never_exits:
  "Dispatcher env r (map ReadErr errs) = (Reading, r, map GoSendError errs)
   \<and> fst (Dispatcher env r rds) \<noteq> Exited
   \<and> ConnectionContext (fst (snd (Dispatcher env r rds))) = ConnectionContext r"
  using Dispatcher_stays [of env r rds] Dispatcher_read_errors [of env r errs] by simp

theorem Dispatcher_never_exits_closed_transport:
  "Dispatcher fixture_env fixture_relay
     (map ReadErr [''websocket: close 1006 (abnormal closure)'', ''recws: not connected''])
   = (Reading, fixture_relay,
      [GoSendError ''websocket: close 1006 (abnormal closure)'',
       GoSendError ''recws: not connected''])
   \<and> fst (Dispatcher fixture_env fixture_relay
        [ReadErr ''websocket: close 1006 (abnormal closure)'', ReadOK TextMessage text_EOSE])
     \<noteq> Exited
   \<and> \<not> Done (ConnectionContext (fst (snd (Dispatcher fixture_env fixture_relay
        [ReadErr ''websocket: close 1006 (abnormal closure)'', ReadOK TextMessage text_EOSE]))))"
  using Dispatcher_never_exits [of fixture_env fixture_relay
      "[''websocket: close 1006 (abnormal closure)'', ''recws: not connected'']"
      "[ReadErr ''websocket: close 1006 (abnormal closure)'', ReadOK TextMessage text_EOSE]"]
  by (simp add: fixture_relay_def Background_def)

section \<open>Routing of well-formed and malformed frames\<close>

lemma tagged_dispatch:
  assumes "tagged_frame env rd tag n js"
  shows "dispatch env r rd =
           (if tag = ''NOTICE'' then (Continue, r, [GoSendNotice (unmarshal_string env (js ! 1))])
            else if tag = ''AUTH'' then (Continue, r, [GoSendChallenge (unmarshal_string env (js ! 1))])
            else if tag = ''EVENT'' then on_EVENT env r js
            else if tag = ''EOSE'' then on_EOSE env r js
            else if tag = ''OK'' then on_OK env r js
            else (Continue, r, []))"
proof (cases rd)
  case (ReadErr e)
  with assms show ?thesis by (simp add: tagged_frame_def)
next
  case (ReadOK ty message)
  with assms have t: "ty = TextMessage" and m: "message \<noteq> []" "hd message = CHR ''[''"
    and u: "unmarshal_array env message = Some js" and l: "2 \<le> length js"
    and c: "unmarshal_string env (js ! 0) = tag"
    by (simp_all add: tagged_frame_def)
  from m obtain rest where mm: "message = CHR ''['' # rest" by (cases message) auto
  have l2: "\<not> length js < 2" using l by simp
  show ?thesis unfolding ReadOK t
    by (simp add: dispatch_def mm[symmetric] u l2 c Let_def PingMessage_def TextMessage_def)
       (simp add: mm)
qed

lemma tagged_length: "tagged_frame env rd tag n js \<Longrightarrow> n \<le> length js"
  by (cases rd) (simp_all add: tagged_frame_def)

lemma deliver_event_ops:
  "deliver_event env r subId sub raw =
     (let event = unmarshal_event env raw in
      if \<not> Match env (Filters sub) event then
        (case Filters sub of [] \<Rightarrow> (Panic, []) | f # _ \<Rightarrow> (Continue, [Printf (FilterMismatch f event)]))
      else if stopped sub then (Continue, [MutexLock subId, MutexUnlock subId])
      else if \<not> AssumeValid r \<and> \<not> fst (CheckSignature env event) then
        (Continue, [MutexLock subId,
           Printf (BadSignature (case snd (CheckSignature env event) of None \<Rightarrow> [] | Some e \<Rightarrow> e)),
           MutexUnlock subId])
      else (Continue, [MutexLock subId, SendEvent subId event, MutexUnlock subId]))"
  by (simp add: deliver_event_def Let_def)

text \<open>
  C7. A frame that is not a text frame, is empty, does not begin with \<open>[\<close>, does not
  decode as an array, has fewer than two elements, has an unknown tag, or is too short
  for its tag, is dropped: the relay (subscription table and confirmation registry
  included) is unchanged, nothing is sent on any channel and no callback is called, and
  the loop continues with the next read. The only operation is the pong that answers a
  frame of the ping type.
\<close>

theorem malformed_dropped:
  assumes "malformed env ty message"
  shows "dispatch env r (ReadOK ty message) =
           (Continue, r, if ty = PingMessage then [WriteMessage PongMessage] else [])
         \<and> Dispatcher env r (ReadOK ty message # rds) =
           (case Dispatcher env r rds of
              (g, r', ops) \<Rightarrow>
                (g, r', (if ty = PingMessage then [WriteMessage PongMessage] else []) @ ops))"
proof -
  have d: "dispatch env r (ReadOK ty message) =
           (Continue, r, if ty = PingMessage then [WriteMessage PongMessage] else [])"
    using assms
    by (cases message)
       (auto simp: malformed_def dispatch_def on_EVENT_def on_EOSE_def on_OK_def Let_def
          PingMessage_def TextMessage_def split: option.splits)
  show ?thesis using d by (simp split: prod.splits)
qed

theorem malformed_dropped_witness:
  "malformed fixture_env 2 ''binary'' \<and>
   dispatch fixture_env fixture_relay (ReadOK 2 ''binary'') = (Continue, fixture_relay, [])
   \<and> malformed fixture_env TextMessage ''[]'' \<and>
   dispatch fixture_env fixture_relay (ReadOK TextMessage ''[]'') = (Continue, fixture_relay, [])"
  using malformed_dropped [of fixture_env 2 "''binary''" fixture_relay "[]"]
    malformed_dropped [of fixture_env TextMessage "''[]''" fixture_relay "[]"]
  by (simp add: malformed_def TextMessage_def PingMessage_def fixture_env_def text_EVENT_def
      text_EOSE_def quoted_def)

text \<open>
  C5. An \<^verbatim>\<open>EVENT\<close> frame of at least three elements. When no subscription is
  registered under its subscription identity, the frame is dropped with the diagnostic
  only: nothing is delivered and the loop continues. When one is registered, the event is
  sent on that subscription's \<^verbatim>\<open>Events\<close> channel exactly when it matches the filters,
  the subscription is not stopped, and the relay is \<^verbatim>\<open>AssumeValid\<close> or the signature
  checks; nothing else is ever sent. The send stands between the lock and the unlock of
  the subscription's mutex, and a stopped subscription is found stopped between the two.
\<close>

theorem EVENT_delivery:
  assumes "tagged_frame env rd ''EVENT'' 3 js"
  shows "(subscriptions r (unmarshal_string env (js ! 1)) = None \<longrightarrow>
            dispatch env r rd =
              (Continue, r, [Printf (NoSubscription (unmarshal_string env (js ! 1)))]))
         \<and> (\<forall>sub. subscriptions r (unmarshal_string env (js ! 1)) = Some sub \<longrightarrow>
              (let subId = unmarshal_string env (js ! 1);
                   event = unmarshal_event env (js ! 2);
                   deliverable = (Match env (Filters sub) event \<and> \<not> stopped sub
                                  \<and> (AssumeValid r \<or> fst (CheckSignature env event)));
                   ops = snd (snd (dispatch env r rd))
               in fst (snd (dispatch env r rd)) = r
                  \<and> (SendEvent subId event \<in> set ops) = deliverable
                  \<and> (\<forall>s e. SendEvent s e \<in> set ops \<longrightarrow> s = subId \<and> e = event)
                  \<and> (deliverable \<longrightarrow>
                        dispatch env r rd =
                          (Continue, r,
                           [MutexLock subId, SendEvent subId event, MutexUnlock subId]))
                  \<and> (Match env (Filters sub) event \<and> stopped sub \<longrightarrow>
                        dispatch env r rd = (Continue, r, [MutexLock subId, MutexUnlock subId]))))"
proof -
  have d: "dispatch env r rd = on_EVENT env r js"
    using tagged_dispatch [OF assms, of r] by simp
  have l: "\<not> length js < 3" using tagged_length [OF assms] by simp
  have none: "subscriptions r (unmarshal_string env (js ! 1)) = None \<Longrightarrow>
      on_EVENT env r js = (Continue, r, [Printf (NoSubscription (unmarshal_string env (js ! 1)))])"
    using l by (simp add: on_EVENT_def Let_def)
  have some: "subscriptions r (unmarshal_string env (js ! 1)) = Some sub \<Longrightarrow>
      on_EVENT env r js =
        (fst (deliver_event env r (unmarshal_string env (js ! 1)) sub (js ! 2)), r,
         snd (deliver_event env r (unmarshal_string env (js ! 1)) sub (js ! 2)))" for sub
    using l by (simp add: on_EVENT_def Let_def split: prod.splits)
  show ?thesis
    unfolding d
  proof (intro conjI impI allI)
    assume "subscriptions r (unmarshal_string env (js ! 1)) = None"
    then show "on_EVENT env r js =
        (Continue, r, [Printf (NoSubscription (unmarshal_string env (js ! 1)))])"
      by (rule none)
  next
    fix sub
    assume s: "subscriptions r (unmarshal_string env (js ! 1)) = Some sub"
    show "let subId = unmarshal_string env (js ! 1);
              event = unmarshal_event env (js ! 2);
              deliverable = (Match env (Filters sub) event \<and> \<not> stopped sub
                                  \<and> (AssumeValid r \<or> fst (CheckSignature env event)));
              ops = snd (snd (on_EVENT env r js))
          in fst (snd (on_EVENT env r js)) = r
                  \<and> (SendEvent subId event \<in> set ops) = deliverable
                  \<and> (\<forall>s e. SendEvent s e \<in> set ops \<longrightarrow> s = subId \<and> e = event)
                  \<and> (deliverable \<longrightarrow>
                        on_EVENT env r js =
                          (Continue, r,
                           [MutexLock subId, SendEvent subId event, MutexUnlock subId]))
                  \<and> (Match env (Filters sub) event \<and> stopped sub \<longrightarrow>
                        on_EVENT env r js = (Continue, r, [MutexLock subId, MutexUnlock subId]))"
      unfolding some [OF s] deliver_event_ops
      by (cases "Filters sub") (simp_all add: Let_def)
  qed
qed

section \<open>End of stored events, and concrete runs of the dispatcher\<close>

lemma on_EOSE_budget:
  "count_list (snd (snd (on_EOSE env r js))) (SendEose subId)
     + eose_pending (fst (snd (on_EOSE env r js))) subId = eose_pending r subId"
  by (simp add: on_EOSE_def eose_pending_def Let_def split: option.splits)

lemma on_EVENT_budget:
  "count_list (snd (snd (on_EVENT env r js))) (SendEose subId)
     + eose_pending (fst (snd (on_EVENT env r js))) subId = eose_pending r subId"
  by (simp add: on_EVENT_def deliver_event_ops Let_def
      split: option.splits list.splits prod.splits)

lemma on_OK_budget:
  "count_list (snd (snd (on_OK env r js))) (SendEose subId)
     + eose_pending (fst (snd (on_OK env r js))) subId = eose_pending r subId"
  by (simp add: on_OK_def Let_def split: option.splits)


lemma dispatch_budget:
  "count_list (snd (snd (dispatch env r rd))) (SendEose subId)
     + eose_pending (fst (snd (dispatch env r rd))) subId = eose_pending r subId"
proof (cases rd)
  case (ReadErr e)
  then show ?thesis by (simp add: dispatch_def)
next
  case (ReadOK ty message)
  show ?thesis
  proof (cases "unmarshal_array env message")
    case None
    then show ?thesis unfolding ReadOK by (simp add: dispatch_def)
  next
    case (Some js)
    then show ?thesis unfolding ReadOK
      by (simp add: dispatch_def Let_def on_EOSE_budget on_EVENT_budget on_OK_budget)
  qed
qed


lemma Dispatcher_budget:
  "count_list (snd (snd (Dispatcher env r rds))) (SendEose subId)
     + eose_pending (fst (snd (Dispatcher env r rds))) subId = eose_pending r subId"
proof (induction rds arbitrary: r)
  case Nil
  show ?case by simp
next
  case (Cons rd rds)
  obtain c r' ops where d: "dispatch env r rd = (c, r', ops)"
    by (cases "dispatch env r rd") auto
  have b: "count_list ops (SendEose subId) + eose_pending r' subId = eose_pending r subId"
    using dispatch_budget [of env r rd subId] d by simp
  show ?case
  proof (cases c)
    case Continue
    obtain g r'' ops' where D: "Dispatcher env r' rds = (g, r'', ops')"
      by (cases "Dispatcher env r' rds") auto
    have "count_list ops' (SendEose subId) + eose_pending r'' subId = eose_pending r' subId"
      using Cons.IH [of r'] D by simp
    with b show ?thesis using d D Continue by simp
  next
    case Break
    with b d show ?thesis by (simp add: eose_pending_def)
  next
    case Panic
    with b d show ?thesis by simp
  qed
qed

lemma eose_pending_le: "eose_pending r subId \<le> 1"
  by (simp add: eose_pending_def split: option.splits)

text \<open>
  C6. Over any sequence of reads the dispatcher sends on a subscription's
  \<^verbatim>\<open>EndOfStoredEvents\<close> channel at most once. On an \<^verbatim>\<open>EOSE\<close> frame for a registered
  subscription whose \<^verbatim>\<open>emitEose\<close> has not run, the signal is sent and the once-flag set;
  the same frame again changes nothing and sends nothing, so the two frames together
  send the signal exactly once.
\<close>

theorem EOSE_once:
  "count_list (snd (snd (Dispatcher env r rds))) (SendEose subId) \<le> 1
   \<and> (tagged_frame env rd ''EOSE'' 2 js \<longrightarrow>
        subscriptions r (unmarshal_string env (js ! 1)) = Some sub \<longrightarrow> \<not> emitEose sub \<longrightarrow>
        (let sid = unmarshal_string env (js ! 1);
             r1 = r\<lparr>subscriptions := (subscriptions r)(sid \<mapsto> sub\<lparr>emitEose := True\<rparr>)\<rparr>
         in dispatch env r rd = (Continue, r1, [SendEose sid])
            \<and> dispatch env r1 rd = (Continue, r1, [])
            \<and> Dispatcher env r [rd, rd] = (Reading, r1, [SendEose sid])))"
proof (intro conjI impI)
  have "count_list (snd (snd (Dispatcher env r rds))) (SendEose subId) \<le> eose_pending r subId"
    using Dispatcher_budget [of env r rds subId] by simp
  then show "count_list (snd (snd (Dispatcher env r rds))) (SendEose subId) \<le> 1"
    using eose_pending_le [of r subId] by simp
next
  assume t: "tagged_frame env rd ''EOSE'' 2 js"
    and s: "subscriptions r (unmarshal_string env (js ! 1)) = Some sub"
    and e: "\<not> emitEose sub"
  define sid where "sid = unmarshal_string env (js ! 1)"
  define r1 where "r1 = r\<lparr>subscriptions := (subscriptions r)(sid \<mapsto> sub\<lparr>emitEose := True\<rparr>)\<rparr>"
  have l: "\<not> length js < 2" using tagged_length [OF t] by simp
  have d: "dispatch env r' rd = on_EOSE env r' js" for r'
    using tagged_dispatch [OF t, of r'] by simp
  have a: "dispatch env r rd = (Continue, r1, [SendEose sid])"
    unfolding d using l s e by (simp add: on_EOSE_def Let_def sid_def r1_def)
  have b: "dispatch env r1 rd = (Continue, r1, [])"
  proof -
    have sid': "unmarshal_string env (js ! Suc 0) = sid" by (simp add: sid_def)
    show ?thesis unfolding d using l by (simp add: on_EOSE_def Let_def sid' r1_def)
  qed
  have c: "Dispatcher env r [rd, rd] = (Reading, r1, [SendEose sid])"
    by (simp add: a b)
  show "let sid = unmarshal_string env (js ! 1);
            r1 = r\<lparr>subscriptions := (subscriptions r)(sid \<mapsto> sub\<lparr>emitEose := True\<rparr>)\<rparr>
        in dispatch env r rd = (Continue, r1, [SendEose sid])
            \<and> dispatch env r1 rd = (Continue, r1, [])
            \<and> Dispatcher env r [rd, rd] = (Reading, r1, [SendEose sid])"
    using a b c by (simp add: Let_def sid_def r1_def)
qed


lemma fixture_EVENT_tagged:
  "tagged_frame fixture_env (ReadOK TextMessage text_EVENT) ''EVENT'' 3
     [quoted ''EVENT'', quoted ''0'', raw_note]"
  by (simp add: tagged_frame_def fixture_env_def text_EVENT_def quoted_def)

lemma fixture_EOSE_tagged:
  "tagged_frame fixture_env (ReadOK TextMessage text_EOSE) ''EOSE'' 2
     [quoted ''EOSE'', quoted ''0'']"
  by (simp add: tagged_frame_def fixture_env_def text_EVENT_def text_EOSE_def quoted_def raw_note_def)

lemma fixture_sid: "unmarshal_string fixture_env (quoted ''0'') = ''0''"
  by (simp add: fixture_env_def quoted_def)

lemma fixture_unmarshal_event: "unmarshal_event fixture_env raw_note = fixture_event"
  by (simp add: fixture_env_def fixture_event_def)

lemma fixture_Match: "Match fixture_env (Filters fixture_sub) fixture_event"
  by (simp add: fixture_env_def fixture_sub_def fixture_event_def)

lemma fixture_CheckSignature: "fst (CheckSignature fixture_env fixture_event)"
  by (simp add: fixture_env_def fixture_event_def)

lemma fixture_lookup: "subscriptions fixture_relay ''0'' = Some fixture_sub"
  by (simp add: fixture_relay_def)



lemma fixture_deliverable:
  "Match fixture_env (Filters fixture_sub) fixture_event \<and> \<not> stopped fixture_sub
   \<and> (AssumeValid fixture_relay \<or> fst (CheckSignature fixture_env fixture_event))"
  using fixture_Match fixture_CheckSignature by (simp add: fixture_sub_def)

lemma fixture_no_sub:
  "subscriptions (fixture_relay\<lparr>subscriptions := Map.empty\<rparr>) ''0'' = None"
  by simp

theorem EVENT_delivery_witness:
  "tagged_frame fixture_env (ReadOK TextMessage text_EVENT) ''EVENT'' 3
     [quoted ''EVENT'', quoted ''0'', raw_note]
   \<and> dispatch fixture_env fixture_relay (ReadOK TextMessage text_EVENT) =
       (Continue, fixture_relay,
        [MutexLock ''0'', SendEvent ''0'' fixture_event, MutexUnlock ''0''])
   \<and> dispatch fixture_env (fixture_relay\<lparr>subscriptions := Map.empty\<rparr>)
        (ReadOK TextMessage text_EVENT) =
       (Continue, fixture_relay\<lparr>subscriptions := Map.empty\<rparr>, [Printf (NoSubscription ''0'')])"
proof -
  note t = fixture_EVENT_tagged
  have i1: "[quoted ''EVENT'', quoted ''0'', raw_note] ! 1 = quoted ''0''"
    and i2: "[quoted ''EVENT'', quoted ''0'', raw_note] ! 2 = raw_note"
    by simp_all
  note E = EVENT_delivery [OF t, of fixture_relay, THEN conjunct2, THEN spec, of fixture_sub,
      unfolded i1 i2 fixture_sid fixture_unmarshal_event Let_def, THEN mp, OF fixture_lookup]
  note a = E [THEN conjunct2, THEN conjunct2, THEN conjunct2, THEN conjunct1, THEN mp,
      OF fixture_deliverable]
  note b = EVENT_delivery [OF t, of "fixture_relay\<lparr>subscriptions := Map.empty\<rparr>",
      THEN conjunct1, unfolded i1 i2 fixture_sid, THEN mp, OF fixture_no_sub]
  show ?thesis by (intro conjI) (rule t, rule a, rule b)
qed


lemma fixture_fresh: "\<not> emitEose fixture_sub"
  by (simp add: fixture_sub_def)

theorem EOSE_once_witness:
  "tagged_frame fixture_env (ReadOK TextMessage text_EOSE) ''EOSE'' 2
     [quoted ''EOSE'', quoted ''0'']
   \<and> subscriptions fixture_relay ''0'' = Some fixture_sub
   \<and> Dispatcher fixture_env fixture_relay
        [ReadOK TextMessage text_EOSE, ReadOK TextMessage text_EOSE] =
       (Reading,
        fixture_relay\<lparr>subscriptions :=
          (subscriptions fixture_relay)(''0'' \<mapsto> fixture_sub\<lparr>emitEose := True\<rparr>)\<rparr>,
        [SendEose ''0''])"
proof -
  have j1: "[quoted ''EOSE'', quoted ''0''] ! 1 = quoted ''0''"
    by simp
  note W = EOSE_once [where env = fixture_env and r = fixture_relay and rds = "[]"
      and subId = "''0''" and rd = "ReadOK TextMessage text_EOSE"
      and js = "[quoted ''EOSE'', quoted ''0'']" and sub = fixture_sub,
      THEN conjunct2, THEN mp, OF fixture_EOSE_tagged, unfolded j1 fixture_sid Let_def,
      THEN mp, OF fixture_lookup, THEN mp, OF fixture_fresh]
  show ?thesis
    by (intro conjI) (rule fixture_EOSE_tagged, rule fixture_lookup,
        rule W [THEN conjunct2, THEN conjunct2])
qed

section \<open>Properties of Connect\<close>

text \<open>
  C8. With an empty URL \<^verbatim>\<open>Connect\<close> returns the error at once: nothing is dialled and
  the connection context is cancelled. With any other URL it dials and returns no error,
  whatever the caller's context is: the context with the deadline (7 seconds when the
  caller gave none) is never looked at again, so a deadline that passes before the
  connection is complete does not make \<^verbatim>\<open>Connect\<close> return an error.
\<close>

theorem Connect_result:
  "(URL r = [] \<longrightarrow>
      Connect r ctx now =
        (r\<lparr>ConnectionContext := \<lparr>Deadline = None, Done = True\<rparr>\<rparr>,
         Some (''invalid relay URL '' @ [CHR 0x27, CHR 0x27]), []))
   \<and> (URL r \<noteq> [] \<longrightarrow>
      fst (snd (Connect r ctx now)) = None
      \<and> snd (snd (Connect r ctx now)) = [Dial (URL r) (RequestHeader r)]
      \<and> Connection (fst (Connect r ctx now)) \<noteq> None
      \<and> \<not> Done (ConnectionContext (fst (Connect r ctx now))))"
  by (simp add: Connect_def Let_def WithCancel_def Background_def)

theorem Connect_expired_deadline:
  "Connect fixture_relay \<lparr>Deadline = Some 0, Done = True\<rparr> (5 * Second) =
     (fixture_relay, None, [Dial ''wss://relay.example'' []])
   \<and> Connect (fixture_relay\<lparr>URL := []\<rparr>) Background 0 =
     (fixture_relay\<lparr>URL := [], ConnectionContext := \<lparr>Deadline = None, Done = True\<rparr>\<rparr>,
      Some (''invalid relay URL '' @ [CHR 0x27, CHR 0x27]), [])"
proof -
  have u: "URL fixture_relay \<noteq> []" "URL (fixture_relay\<lparr>URL := []\<rparr>) = []"
    by (simp_all add: fixture_relay_def)
  note a = Connect_result [of fixture_relay "\<lparr>Deadline = Some 0, Done = True\<rparr>" "5 * Second",
      THEN conjunct2, THEN mp, OF u(1)]
  note b = Connect_result [of "fixture_relay\<lparr>URL := []\<rparr>" Background 0,
      THEN conjunct1, THEN mp, OF u(2)]
  have c: "fst (Connect fixture_relay \<lparr>Deadline = Some 0, Done = True\<rparr> (5 * Second)) = fixture_relay"
    by (simp add: Connect_def Let_def WithCancel_def Background_def fixture_relay_def)
  have d: "Connect fixture_relay \<lparr>Deadline = Some 0, Done = True\<rparr> (5 * Second) =
     (fixture_relay, None, [Dial ''wss://relay.example'' []])"
    using a c by (simp add: prod_eq_iff fixture_relay_def)
  show ?thesis using d b by simp
qed

section \<open>Properties of QuerySync\<close>


lemma Subscribe_connected:
  "Connection r \<noteq> None \<Longrightarrow>
   Subscribe r n ctx fs =
     Inr (r\<lparr>subscriptions := (subscriptions r)(Itoa n \<mapsto>
            \<lparr>counter = n, Context = ctx, Filters = fs, stopped = False, emitEose = False\<rparr>)\<rparr>,
          n + 1,
          \<lparr>counter = n, Context = ctx, Filters = fs, stopped = False, emitEose = False\<rparr>,
          [WriteJSON (REQ_out (Itoa n) fs)])"
  by (simp add: Subscribe_def PrepareSubscription_def Fire_def GetID_def WithCancel_def Let_def)


lemma force_timeout_Done: "Done (force_timeout ctx now d) = Done ctx"
  by (simp add: force_timeout_def WithTimeout_def)





section \<open>Properties of Publish\<close>


lemma Publish_outcome:
  assumes "Connection r = Some conn"
  shows "outcome (Publish r n ctx now event None trace) =
           (case Publish_wait (Done (ConnectionContext r)) event
                   \<lparr>status = PublishStatusSent, err = None, cancelled = Done ctx\<rparr> trace of
              None \<Rightarrow> Blocked
            | Some res \<Rightarrow> Returned res)"
proof -
  have c: "Connection (r\<lparr>okCallbacks := (okCallbacks r)(ID event \<mapsto> Publish_okCallback)\<rparr>) \<noteq> None"
    using assms by simp
  show ?thesis
    using assms
    by (simp add: Publish_def Let_def Subscribe_connected [OF c] WithCancel_def
        force_timeout_Done split: option.splits)
qed




lemma Publish_wait_skip:
  "ID e \<noteq> ID event \<Longrightarrow>
   Publish_wait cd event c (pre @ ChanEvent (Some e) # rest) = Publish_wait cd event c (pre @ rest)"
proof (induction pre arbitrary: c)
  case Nil
  then show ?case by simp
next
  case (Cons x pre)
  show ?case
  proof (cases x)
    case (ChanEvent eo)
    with Cons show ?thesis by (cases eo) simp_all
  qed (use Cons in simp_all)
qed

lemma Publish_wait_callbacks:
  "Publish_wait cd event c (map (\<lambda>cb. OkCalled (fst cb) (snd cb)) cbs @ rest) =
     Publish_wait cd event (fold (\<lambda>cb. Publish_okCallback (fst cb) (snd cb)) cbs c) rest"
  by (induction cbs arbitrary: c) simp_all

lemma fixture_connected:
  "Connection fixture_relay = Some \<lparr>KeepAliveTimeout = 10 * Second, RecIntvlMin = 5 * Second\<rparr>"
  by (simp add: fixture_relay_def)




text \<open>
  C10. In the wait loop of \<^verbatim>\<open>Publish\<close>, a received event whose ID differs from the
  published event's is ignored wherever it arrives: the call goes on as if it had not
  been received. An event with the published ID ends the call with status succeeded. A
  nil received from the closed channel ends the call with the status and error as the
  callbacks so far have left them, which is sent with no error when none has run.
\<close>

theorem Publish_wait_echo:
  assumes "Connection r = Some conn"
  shows "(ID e \<noteq> ID event \<longrightarrow>
           outcome (Publish r n ctx now event None (pre @ ChanEvent (Some e) # rest)) =
           outcome (Publish r n ctx now event None (pre @ rest)))
    \<and> (ID e = ID event \<longrightarrow>
           outcome (Publish r n ctx now event None
             (map (\<lambda>cb. OkCalled (fst cb) (snd cb)) cbs @ ChanEvent (Some e) # rest)) =
           Returned (PublishStatusSucceeded,
             err (fold (\<lambda>cb. Publish_okCallback (fst cb) (snd cb)) cbs
                    \<lparr>status = PublishStatusSent, err = None, cancelled = Done ctx\<rparr>)))
    \<and> outcome (Publish r n ctx now event None
             (map (\<lambda>cb. OkCalled (fst cb) (snd cb)) cbs @ ChanEvent None # rest)) =
           Returned (status (fold (\<lambda>cb. Publish_okCallback (fst cb) (snd cb)) cbs
                        \<lparr>status = PublishStatusSent, err = None, cancelled = Done ctx\<rparr>),
                     err (fold (\<lambda>cb. Publish_okCallback (fst cb) (snd cb)) cbs
                        \<lparr>status = PublishStatusSent, err = None, cancelled = Done ctx\<rparr>))"
  by (simp add: Publish_outcome [OF assms] Publish_wait_skip Publish_wait_callbacks)


theorem Publish_wait_echo_witness:
  "outcome (Publish fixture_relay 0 Background 0 fixture_event None
        [ChanEvent (Some \<lparr>ID = ''e2'', Payload = []\<rparr>), CtxDone]) =
   outcome (Publish fixture_relay 0 Background 0 fixture_event None [CtxDone])
   \<and> outcome (Publish fixture_relay 0 Background 0 fixture_event None
        [OkCalled False ''blocked'', ChanEvent None]) =
     Returned (PublishStatusFailed, Some ''msg: blocked'')
   \<and> outcome (Publish fixture_relay 0 Background 0 fixture_event None
        [OkCalled False ''blocked'', ChanEvent (Some fixture_event)]) =
     Returned (PublishStatusSucceeded, Some ''msg: blocked'')"
proof -
  have ne: "ID \<lparr>ID = ''e2'', Payload = []\<rparr> \<noteq> ID fixture_event"
    by (simp add: fixture_event_def)
  have same: "ID fixture_event = ID fixture_event" by simp
  note a = Publish_wait_echo [OF fixture_connected, where n = 0 and ctx = Background and now = 0
      and event = fixture_event and e = "\<lparr>ID = ''e2'', Payload = []\<rparr>" and pre = "[]"
      and rest = "[CtxDone]", THEN conjunct1, THEN mp, OF ne]
  note b = Publish_wait_echo [OF fixture_connected, where n = 0 and ctx = Background and now = 0
      and event = fixture_event and e = fixture_event and cbs = "[(False, ''blocked'')]"
      and rest = "[]", THEN conjunct2]
  note b1 = b [THEN conjunct1, THEN mp, OF same]
  note b2 = b [THEN conjunct2]
  show ?thesis using a b1 b2 by (simp add: Publish_okCallback_def)
qed

section \<open>Properties of Auth\<close>









section \<open>The confirmation registry\<close>






end
